theory Spec2Isabelle
  imports Complex_Main "HOL-Library.Sublist"
begin

section \<open>Data model (api.py, lines 12-21)\<close>

text \<open>
  The three pydantic models. \<open>CodeInput\<close> declares one field of type \<open>str\<close> and no
  validator, so every string is the \<open>code\<close> of a \<open>CodeInput\<close>. \<open>CodeOutput\<close> has the two
  fields \<open>refactor_code\<close> and \<open>language\<close>, both of type \<open>str\<close>; the handler never builds
  one, it is the second member of the route's response annotation (line 73), against
  which FastAPI validates what the handler returned. A \<open>CodeOutput\<close> is written here as
  the pair of its two strings.
\<close>

record CodeInput =
  code :: string

type_synonym CodeOutput = "string \<times> string"

record ErrorResponse =
  status_code :: int
  message :: string

text \<open>
  The values Python's \<open>json\<close> module produces, which is what the output parser returns:
  \<open>None\<close>, booleans, numbers (integers here), strings, lists and dictionaries. A
  dictionary is an association list with distinct keys, read with \<open>map_of\<close>. \<open>truthy\<close>
  is Python's truth value: \<open>not v\<close> holds exactly when \<open>truthy v\<close> does not.
\<close>

datatype json =
    JNull
  | JBool bool
  | JNumber int
  | JString string
  | JArray "json list"
  | JObject "(string \<times> json) list"

fun truthy :: "json \<Rightarrow> bool" where
  "truthy JNull = False"
| "truthy (JBool b) = b"
| "truthy (JNumber n) = (n \<noteq> 0)"
| "truthy (JString s) = (s \<noteq> [])"
| "truthy (JArray vs) = (vs \<noteq> [])"
| "truthy (JObject kvs) = (kvs \<noteq> [])"

abbreviation HTTP_200_OK :: int where "HTTP_200_OK \<equiv> 200"
abbreviation HTTP_404_NOT_FOUND :: int where "HTTP_404_NOT_FOUND \<equiv> 404"
abbreviation HTTP_500_INTERNAL_SERVER_ERROR :: int where "HTTP_500_INTERNAL_SERVER_ERROR \<equiv> 500"

text \<open>
  What a \<open>try\<close> block of the handler can catch: the instances of Python's class
  \<open>Exception\<close>. \<open>HTTPException sc d\<close> is FastAPI's exception with its \<open>status_code\<close> and
  its \<open>detail\<close>; \<open>Exception s\<close> is any other instance, \<open>s\<close> being its \<open>str()\<close>, which is
  all the handler reads of it.
\<close>

datatype exn = HTTPException int string | Exception string

text \<open>Errors that end the import of the module, and with it the process.\<close>

datatype startup_error = EnvironmentError string | RuntimeError string | ValueError string

section \<open>The external collaborators\<close>

text \<open>
  The chat model, the output parser and the prompt template come from third-party
  libraries. The chat model is a parameter: one call takes the list of messages and
  either raises or returns a message. The output parser is a parameter too: its \<open>parse\<close>
  either raises or returns the JSON value it read from the text (the library's parser
  checks that the two keys are present in it, not what their values are), and its
  format instructions are a fixed text.
\<close>

datatype BaseMessage = HumanMessage string | AIMessage string

fun content :: "BaseMessage \<Rightarrow> string" where
  "content (HumanMessage s) = s"
| "content (AIMessage s) = s"

type_synonym ChatOpenAI = "BaseMessage list \<Rightarrow> exn + BaseMessage"

record ResponseSchema =
  name :: string
  description :: string

record StructuredOutputParser =
  schemas :: "ResponseSchema list"
  parse :: "string \<Rightarrow> exn + json"
  get_format_instructions :: string

text \<open>
  The libraries as the module uses them at import time: the constructor of the chat
  model (called with \<open>temperature\<close> and \<open>model\<close>; \<open>Inl s\<close> is an exception whose
  \<open>str()\<close> is \<open>s\<close>) and the constructor of the output parser from its schemas.
\<close>

record library =
  ChatOpenAI_init :: "real \<Rightarrow> string \<Rightarrow> string + ChatOpenAI"
  from_response_schemas :: "ResponseSchema list \<Rightarrow> StructuredOutputParser"

section \<open>The prompt template (lines 40-53, 65)\<close>

text \<open>
  \<open>CODE_TEMPLATE\<close> is the triple-quoted literal of the source: a backslash at the end of
  a line continues the line (neither the backslash nor the line break is part of the
  text), the other line breaks are characters of the text. It is cut here at its two
  placeholders.
\<close>

definition template_head :: string where
  "template_head =
     ''Refactor the code based on the following criteria'' @
     ''                    imporve variable function and class name to be descriptive and meaningful '' @
     ''                    update the variable name whereever they are used '' @
     ''                    use consistent formating , indentation and commenting '' @
     ''                    follow the best practices for the respective programming language '' @
     ''                    group related code together and seperate concerns to enhance readibility and maintainibility '' @
     ''                    don't change the exports or imports of the code '' @
     ''                    insert semicolon where ever is needed but don't and redundant semicolons '' @
     ''                    Omit the language name at the top of the code '' @
     ''                    don't change the css classname it could damage the html styling \<newline>'' @
     ''                    that is delimited by triple backticks '' @
     ''                    code: ```''"

definition template_mid :: string where
  "template_mid = ''``` \<newline>'' @ ''                    ''"

definition template_tail :: string where
  "template_tail = ''\<newline>'' @ ''                          ''"

definition CODE_TEMPLATE :: string where
  "CODE_TEMPLATE =
     template_head @ ''{code}'' @ template_mid @ ''{format_instructions}'' @ template_tail"

text \<open>
  \<open>ChatPromptTemplate.from_template\<close> reads the template in Python's format-string syntax:
  literal text, \<open>{name}\<close> for a variable, doubled braces for a brace. A single brace is a
  \<open>ValueError\<close>. The template becomes one human message template.
\<close>

datatype piece = Literal string | Placeholder string

fun lit_cons :: "char \<Rightarrow> piece list \<Rightarrow> piece list" where
  "lit_cons c (Literal s # ps) = Literal (c # s) # ps"
| "lit_cons c ps = Literal [c] # ps"

fun scan_literal :: "string \<Rightarrow> string + piece list"
  and scan_field :: "string \<Rightarrow> string \<Rightarrow> string + piece list" where
  "scan_literal [] = Inr []"
| "scan_literal [c] =
     (if c = CHR ''{'' then Inl ''Single '{' encountered in format string''
      else if c = CHR ''}'' then Inl ''Single '}' encountered in format string''
      else Inr [Literal [c]])"
| "scan_literal (c # d # cs) =
     (if c = CHR ''{'' then
        (if d = CHR ''{'' then map_sum id (lit_cons c) (scan_literal cs)
         else scan_field [] (d # cs))
      else if c = CHR ''}'' then
        (if d = CHR ''}'' then map_sum id (lit_cons c) (scan_literal cs)
         else Inl ''Single '}' encountered in format string'')
      else map_sum id (lit_cons c) (scan_literal (d # cs)))"
| "scan_field n [] = Inl ''expected '}' before end of string''"
| "scan_field n (c # cs) =
     (if c = CHR ''}'' then map_sum id ((#) (Placeholder n)) (scan_literal cs)
      else scan_field (n @ [c]) cs)"

type_synonym ChatPromptTemplate = "piece list"

definition from_template :: "string \<Rightarrow> string + ChatPromptTemplate" where
  "from_template t = scan_literal t"

text \<open>
  \<open>prompt.format_messages(**kwargs)\<close>: every placeholder is replaced by the value of its
  keyword argument, as it is; a placeholder without an argument is a \<open>KeyError\<close>, whose
  \<open>str()\<close> is the quoted name. The result is the list of one human message.
\<close>

fun format_pieces :: "piece list \<Rightarrow> (string \<times> string) list \<Rightarrow> exn + string" where
  "format_pieces [] kwargs = Inr []"
| "format_pieces (Literal s # ps) kwargs =
     (case format_pieces ps kwargs of
        Inl e \<Rightarrow> Inl e
      | Inr r \<Rightarrow> Inr (s @ r))"
| "format_pieces (Placeholder n # ps) kwargs =
     (case map_of kwargs n of
        None \<Rightarrow> Inl (Exception ([CHR 0x27] @ n @ [CHR 0x27]))
      | Some v \<Rightarrow>
          (case format_pieces ps kwargs of
             Inl e \<Rightarrow> Inl e
           | Inr r \<Rightarrow> Inr (v @ r)))"

definition format_messages ::
  "ChatPromptTemplate \<Rightarrow> (string \<times> string) list \<Rightarrow> exn + BaseMessage list" where
  "format_messages p kwargs =
     (case format_pieces p kwargs of
        Inl e \<Rightarrow> Inl e
      | Inr s \<Rightarrow> Inr [HumanMessage s])"

section \<open>Module state and startup (lines 23-69)\<close>

text \<open>
  The names the module binds at import time. \<open>app\<close> is the FastAPI application, here the
  list of its routes (method and path).
\<close>

record module_state =
  OPENAI_API_KEY :: string
  chat_model :: ChatOpenAI
  app :: "(string \<times> string) list"
  code_parser :: StructuredOutputParser
  format_instructions :: string
  prompt :: ChatPromptTemplate

definition CHAT_MODEL :: string where
  "CHAT_MODEL = ''gpt-3.5-turbo''"

definition refactored_code_schema :: ResponseSchema where
  "refactored_code_schema =
     \<lparr>name = ''refactor_code'', description = ''extract the refactored code''\<rparr>"

definition language_schema :: ResponseSchema where
  "language_schema =
     \<lparr>name = ''language'', description = ''Programming language of refactored code''\<rparr>"

definition response_schemas :: "ResponseSchema list" where
  "response_schemas = [refactored_code_schema, language_schema]"

type_synonym env = "string \<rightharpoonup> string"

text \<open>
  \<open>load_dotenv()\<close> with its default arguments (\<open>override=False\<close>): the variables of the
  \<open>.env\<close> file are added to the process environment, a variable the environment already
  has keeps its value. \<open>dotenv_file\<close> is the content of the file, empty when there is none.
\<close>

definition load_dotenv :: "env \<Rightarrow> env \<Rightarrow> env" where
  "load_dotenv dotenv_file os_environ = dotenv_file ++ os_environ"

definition getenv :: "env \<Rightarrow> string \<Rightarrow> string option" where
  "getenv environ k = environ k"

text \<open>
  The import of the module, statement by statement: the key is read and checked (lines
  24-28), the chat model is built (31-35), then the application, the parser, its format
  instructions and the prompt (38-65).
\<close>

definition startup :: "library \<Rightarrow> env \<Rightarrow> env \<Rightarrow> startup_error + module_state" where
  "startup lib dotenv_file os_environ =
     (let environ = load_dotenv dotenv_file os_environ in
      case getenv environ ''OPENAI_API_KEY'' of
        None \<Rightarrow>
          Inl (EnvironmentError
            ''OpenAI API key is missing. Please set the OPENAI_API_KEY environment variable'')
      | Some key \<Rightarrow>
          (case ChatOpenAI_init lib 0 CHAT_MODEL of
             Inl e \<Rightarrow> Inl (RuntimeError (''Failed to initialize ChatOpenAI instance: '' @ e))
           | Inr cm \<Rightarrow>
               (let parser = from_response_schemas lib response_schemas in
                case from_template CODE_TEMPLATE of
                  Inl e \<Rightarrow> Inl (ValueError e)
                | Inr p \<Rightarrow>
                    Inr \<lparr>OPENAI_API_KEY = key,
                         chat_model = cm,
                         app = [(''POST'', ''/refactor-code/'')],
                         code_parser = parser,
                         format_instructions = get_format_instructions parser,
                         prompt = p\<rparr>)))"

definition get_chat_instance :: "module_state \<Rightarrow> ChatOpenAI" where
  "get_chat_instance g = chat_model g"

section \<open>The request handler (lines 72-94)\<close>

text \<open>
  The handler works on three pieces of state: the module's names (which it only reads),
  the \<open>Response\<close> object FastAPI passes in (whose status code it may set), and the calls
  it makes to its collaborators, logged in order.
\<close>

record Response =
  response_status_code :: "int option"

datatype call = OracleCall "BaseMessage list" | ParserCall string

record state =
  globals :: module_state
  response :: Response
  calls :: "call list"

text \<open>
  What is on its way to the client: the value the handler returned, which is the parsed
  JSON value or an \<open>ErrorResponse\<close>, and, when FastAPI cannot make a response of that
  value, the plain text of its own error page, which the handler never returns.
\<close>

datatype returned = Parsed json | Failure ErrorResponse | PlainText string

definition render :: "module_state \<Rightarrow> CodeInput \<Rightarrow> exn + BaseMessage list" where
  "render g c =
     format_messages (prompt g)
       [(''code'', code c), (''format_instructions'', format_instructions g)]"

text \<open>
  The body of the \<open>try\<close> (lines 75-84): \<open>Inl\<close> is the exception that leaves it. \<open>not x\<close>
  on a string is true exactly when it is empty, on a parsed value when it is not
  \<open>truthy\<close>.
\<close>

definition try_block :: "CodeInput \<Rightarrow> ChatOpenAI \<Rightarrow> state \<Rightarrow> (exn + json) \<times> state" where
  "try_block c chat_ai st =
     (case render (globals st) c of
        Inl e \<Rightarrow> (Inl e, st)
      | Inr data \<Rightarrow>
          (let st1 = st\<lparr>calls := calls st @ [OracleCall data]\<rparr> in
           case chat_ai data of
             Inl e \<Rightarrow> (Inl e, st1)
           | Inr response_from_ai \<Rightarrow>
               if content response_from_ai = [] then
                 (Inl (HTTPException HTTP_404_NOT_FOUND ''Empty response from chat API''), st1)
               else
                 (let st2 = st1\<lparr>calls := calls st1 @ [ParserCall (content response_from_ai)]\<rparr> in
                  case parse (code_parser (globals st)) (content response_from_ai) of
                    Inl e \<Rightarrow> (Inl e, st2)
                  | Inr refactored_code \<Rightarrow>
                      if \<not> truthy refactored_code then
                        (Inl (HTTPException HTTP_500_INTERNAL_SERVER_ERROR
                           ''Unexpected result from chat API''), st2)
                      else (Inr refactored_code, st2))))"

text \<open>The prompts a log of calls shows as sent to the chat model, in order.\<close>

fun prompts_sent :: "call list \<Rightarrow> BaseMessage list list" where
  "prompts_sent [] = []"
| "prompts_sent (OracleCall data # cs) = data # prompts_sent cs"
| "prompts_sent (ParserCall t # cs) = prompts_sent cs"

text \<open>The two \<open>except\<close> clauses (lines 86-94), in the order of the source.\<close>

fun on_exception :: "exn \<Rightarrow> state \<Rightarrow> returned \<times> state" where
  "on_exception (HTTPException sc detail) st =
     (Failure \<lparr>status_code = sc, message = detail\<rparr>,
      st\<lparr>response := (response st)\<lparr>response_status_code := Some sc\<rparr>\<rparr>)"
| "on_exception (Exception e) st =
     (Failure \<lparr>status_code = HTTP_500_INTERNAL_SERVER_ERROR,
               message = ''Internal Server error: '' @ e\<rparr>,
      st\<lparr>response := (response st)\<lparr>response_status_code := Some HTTP_500_INTERNAL_SERVER_ERROR\<rparr>\<rparr>)"

definition refactor_code :: "CodeInput \<Rightarrow> ChatOpenAI \<Rightarrow> state \<Rightarrow> returned \<times> state" where
  "refactor_code c chat_ai st =
     (case try_block c chat_ai st of
        (Inr refactored_code, st') \<Rightarrow> (Parsed refactored_code, st')
      | (Inl e, st') \<Rightarrow> on_exception e st')"

text \<open>
  The response model of the route is the handler's return annotation
  \<open>Union[ErrorResponse, CodeOutput]\<close> (line 73). FastAPI validates the returned value
  against it with pydantic, in its default (lax) mode: a field of type \<open>str\<close> takes a
  string and nothing else; a field of type \<open>int\<close> takes an integer, a boolean (as 0 or
  1) and a string that spells a decimal integer (blanks around it and a sign are
  allowed; the rarer spellings pydantic also reads, with underscores or a fraction of
  zeros, are not modelled). A field that is absent fails the model, entries the model
  does not name are dropped.
\<close>

fun str_field :: "json \<Rightarrow> string option" where
  "str_field (JString s) = Some s"
| "str_field v = None"

definition is_digit :: "char \<Rightarrow> bool" where
  "is_digit c = (48 \<le> (of_char c :: nat) \<and> (of_char c :: nat) \<le> 57)"

definition is_blank :: "char \<Rightarrow> bool" where
  "is_blank c = ((of_char c :: nat) = 32 \<or> (9 \<le> (of_char c :: nat) \<and> (of_char c :: nat) \<le> 13))"

definition strip :: "string \<Rightarrow> string" where
  "strip s = rev (dropWhile is_blank (rev (dropWhile is_blank s)))"

definition decimal :: "string \<Rightarrow> int option" where
  "decimal s =
     (if s \<noteq> [] \<and> list_all is_digit s
      then Some (foldl (\<lambda>a c. 10 * a + (int (of_char c) - 48)) 0 s)
      else None)"

definition str_as_int :: "string \<Rightarrow> int option" where
  "str_as_int s =
     (case strip s of
        [] \<Rightarrow> None
      | c # cs \<Rightarrow>
          if c = CHR ''-'' then map_option uminus (decimal cs)
          else if c = CHR ''+'' then decimal cs
          else decimal (c # cs))"

fun int_field :: "json \<Rightarrow> int option" where
  "int_field (JNumber n) = Some n"
| "int_field (JBool b) = Some (if b then 1 else 0)"
| "int_field (JString s) = str_as_int s"
| "int_field v = None"

fun validate_ErrorResponse :: "json \<Rightarrow> ErrorResponse option" where
  "validate_ErrorResponse (JObject kvs) =
     (case map_of kvs ''status_code'' of
        None \<Rightarrow> None
      | Some v \<Rightarrow>
          (case int_field v of
             None \<Rightarrow> None
           | Some n \<Rightarrow>
               (case map_of kvs ''message'' of
                  None \<Rightarrow> None
                | Some w \<Rightarrow>
                    (case str_field w of
                       None \<Rightarrow> None
                     | Some m \<Rightarrow> Some \<lparr>status_code = n, message = m\<rparr>))))"
| "validate_ErrorResponse v = None"

fun validate_CodeOutput :: "json \<Rightarrow> CodeOutput option" where
  "validate_CodeOutput (JObject kvs) =
     (case map_of kvs ''refactor_code'' of
        None \<Rightarrow> None
      | Some v \<Rightarrow>
          (case str_field v of
             None \<Rightarrow> None
           | Some r \<Rightarrow>
               (case map_of kvs ''language'' of
                  None \<Rightarrow> None
                | Some w \<Rightarrow>
                    (case str_field w of
                       None \<Rightarrow> None
                     | Some l \<Rightarrow> Some (r, l)))))"
| "validate_CodeOutput v = None"

text \<open>The JSON body of a \<open>CodeOutput\<close>: its two fields, in the order of the class.\<close>

definition CodeOutput_json :: "CodeOutput \<Rightarrow> json" where
  "CodeOutput_json co =
     JObject [(''refactor_code'', JString (fst co)), (''language'', JString (snd co))]"

text \<open>
  The response FastAPI makes of the returned value, given the status code of the
  request: an \<open>ErrorResponse\<close> instance is sent as it is; a parsed value is sent as the
  first member of the union it validates as, \<open>ErrorResponse\<close> before \<open>CodeOutput\<close>; a
  value that validates as neither raises a \<open>ResponseValidationError\<close> outside the
  handler, which the server answers with status 500 and the plain text
  \<open>Internal Server Error\<close>.
\<close>

fun respond :: "int \<Rightarrow> returned \<Rightarrow> int \<times> returned" where
  "respond sc (Failure er) = (sc, Failure er)"
| "respond sc (Parsed v) =
     (case validate_ErrorResponse v of
        Some er \<Rightarrow> (sc, Failure er)
      | None \<Rightarrow>
          (case validate_CodeOutput v of
             Some co \<Rightarrow> (sc, Parsed (CodeOutput_json co))
           | None \<Rightarrow> (HTTP_500_INTERNAL_SERVER_ERROR, PlainText ''Internal Server Error'')))"
| "respond sc (PlainText t) = (sc, PlainText t)"

text \<open>
  The route (line 72): FastAPI calls the handler with a fresh \<open>Response\<close> and the chat
  model of \<open>get_chat_instance\<close>, takes the status code the handler set on the
  \<open>Response\<close>, or the route's \<open>status_code=HTTP_200_OK\<close> when it set none, and makes
  the response of the returned value.
\<close>

definition http_status :: "Response \<Rightarrow> int" where
  "http_status r = (case response_status_code r of None \<Rightarrow> HTTP_200_OK | Some sc \<Rightarrow> sc)"

definition request_state :: "module_state \<Rightarrow> state" where
  "request_state g = \<lparr>globals = g, response = \<lparr>response_status_code = None\<rparr>, calls = []\<rparr>"

definition post_refactor_code :: "module_state \<Rightarrow> CodeInput \<Rightarrow> (int \<times> returned) \<times> state" where
  "post_refactor_code g c =
     (case refactor_code c (get_chat_instance g) (request_state g) of
        (r, st) \<Rightarrow> (respond (http_status (response st)) r, st))"

text \<open>
  The server: requests are answered one after the other, each on the module state the
  one before left. The process serves only once the module is imported.
\<close>

fun serve :: "module_state \<Rightarrow> CodeInput list \<Rightarrow> (int \<times> returned) list" where
  "serve g [] = []"
| "serve g (c # cs) =
     (case post_refactor_code g c of
        (r, st) \<Rightarrow> r # serve (globals st) cs)"

definition run_process ::
  "library \<Rightarrow> env \<Rightarrow> env \<Rightarrow> CodeInput list \<Rightarrow> startup_error + (int \<times> returned) list" where
  "run_process lib dotenv_file os_environ requests =
     (case startup lib dotenv_file os_environ of
        Inl e \<Rightarrow> Inl e
      | Inr g \<Rightarrow> Inr (serve g requests))"

section \<open>Scenarios\<close>

text \<open>
  Stand-ins for the collaborators, used to run the handler on concrete requests: a chat
  model that answers every prompt with one text, one that raises, and an output parser
  that does on four texts what the library's parser does on them: it returns the object
  of a text that has both keys, whatever their values, and raises on a text that lacks
  a key or is no JSON, with a description of the library's kind. \<open>empty_parse\<close> is a
  parser of another behaviour, one that returns an empty dictionary.
\<close>

definition answering :: "string \<Rightarrow> ChatOpenAI" where
  "answering t = (\<lambda>data. Inr (AIMessage t))"

definition raising :: "exn \<Rightarrow> ChatOpenAI" where
  "raising e = (\<lambda>data. Inl e)"

definition scenario_code :: string where
  "scenario_code = ''def f(x): return x+1''"

definition scenario_answer :: string where
  "scenario_answer =
     ''{\"refactor_code\": \"def add_one(x):'' @ [CHR 0x5C] @ ''n    return x + 1\", '' @
     ''\"language\": \"python\"}''"

definition scenario_dict :: json where
  "scenario_dict =
     JObject [(''refactor_code'', JString ''def add_one(x):\<newline>    return x + 1''),
              (''language'', JString ''python'')]"

definition null_language_answer :: string where
  "null_language_answer = ''{\"refactor_code\": \"x = 1\", \"language\": null}''"

definition null_language_dict :: json where
  "null_language_dict =
     JObject [(''refactor_code'', JString ''x = 1''), (''language'', JNull)]"

definition missing_language_answer :: string where
  "missing_language_answer = ''{\"refactor_code\": \"x = 1\"}''"


definition missing_language_error :: string where
  "missing_language_error =
     ''Got invalid return object. Expected key `language` to be present, but got '' @
     ''{'' @ [CHR 0x27] @ ''refactor_code'' @ [CHR 0x27] @ '': '' @
     [CHR 0x27] @ ''x = 1'' @ [CHR 0x27] @ ''}''"

definition not_json_error :: string where
  "not_json_error =
     ''Got invalid JSON object. Error: Expecting value: line 1 column 1 (char 0)''"

definition strict_parse :: "string \<Rightarrow> exn + json" where
  "strict_parse t =
     (if t = scenario_answer then Inr scenario_dict
      else if t = null_language_answer then Inr null_language_dict
      else if t = missing_language_answer then Inl (Exception missing_language_error)
      else Inl (Exception not_json_error))"

definition empty_parse :: "string \<Rightarrow> exn + json" where
  "empty_parse t = Inr (JObject [])"

definition scenario_instructions :: string where
  "scenario_instructions = ''Answer with a JSON object with the keys refactor_code and language.''"

definition scenario_library :: "ChatOpenAI \<Rightarrow> (string \<Rightarrow> exn + json) \<Rightarrow> library" where
  "scenario_library chat p =
     \<lparr>ChatOpenAI_init = (\<lambda>temperature model. Inr chat),
      from_response_schemas =
        (\<lambda>rs. \<lparr>schemas = rs, parse = p, get_format_instructions = scenario_instructions\<rparr>)\<rparr>"

definition scenario_module :: "ChatOpenAI \<Rightarrow> (string \<Rightarrow> exn + json) \<Rightarrow> module_state" where
  "scenario_module chat p =
     \<lparr>OPENAI_API_KEY = ''sk-test'',
      chat_model = chat,
      app = [(''POST'', ''/refactor-code/'')],
      code_parser =
        \<lparr>schemas = response_schemas, parse = p, get_format_instructions = scenario_instructions\<rparr>,
      format_instructions = scenario_instructions,
      prompt =
        [Literal template_head, Placeholder ''code'', Literal template_mid,
         Placeholder ''format_instructions'', Literal template_tail]\<rparr>"

definition scenario_prompt :: "string \<Rightarrow> BaseMessage list" where
  "scenario_prompt c =
     [HumanMessage (template_head @ c @ template_mid @ scenario_instructions @ template_tail)]"

definition no_environ :: env where
  "no_environ = Map.empty"

definition key_environ :: env where
  "key_environ = [''OPENAI_API_KEY'' \<mapsto> ''sk-test'']"

section \<open>Basic facts\<close>

lemmas handler_defs =
  post_refactor_code_def refactor_code_def try_block_def request_state_def http_status_def Let_def

lemma from_template_CODE_TEMPLATE:
  "from_template CODE_TEMPLATE =
     Inr [Literal template_head, Placeholder ''code'', Literal template_mid,
          Placeholder ''format_instructions'', Literal template_tail]"
  by code_simp

lemma format_messages_two_placeholders:
  "format_messages
     [Literal h, Placeholder ''code'', Literal m, Placeholder ''format_instructions'', Literal t]
     [(''code'', c), (''format_instructions'', f)] =
   Inr [HumanMessage (h @ c @ m @ f @ t)]"
  by (simp add: format_messages_def)

lemma startup_unset:
  "getenv (load_dotenv dotenv_file os_environ) ''OPENAI_API_KEY'' = None \<Longrightarrow>
   startup lib dotenv_file os_environ =
     Inl (EnvironmentError
       ''OpenAI API key is missing. Please set the OPENAI_API_KEY environment variable'')"
  by (simp add: startup_def)

lemma startup_set:
  "getenv (load_dotenv dotenv_file os_environ) ''OPENAI_API_KEY'' = Some key \<Longrightarrow>
   startup lib dotenv_file os_environ =
     (case ChatOpenAI_init lib 0 CHAT_MODEL of
        Inl e \<Rightarrow> Inl (RuntimeError (''Failed to initialize ChatOpenAI instance: '' @ e))
      | Inr cm \<Rightarrow>
          Inr \<lparr>OPENAI_API_KEY = key,
               chat_model = cm,
               app = [(''POST'', ''/refactor-code/'')],
               code_parser = from_response_schemas lib response_schemas,
               format_instructions =
                 get_format_instructions (from_response_schemas lib response_schemas),
               prompt =
                 [Literal template_head, Placeholder ''code'', Literal template_mid,
                  Placeholder ''format_instructions'', Literal template_tail]\<rparr>)"
  by (simp add: startup_def from_template_CODE_TEMPLATE Let_def split: sum.splits)

lemma startup_prompt:
  assumes "startup lib dotenv_file os_environ = Inr g"
  shows "prompt g =
     [Literal template_head, Placeholder ''code'', Literal template_mid,
      Placeholder ''format_instructions'', Literal template_tail]"
  using assms
  by (auto simp add: startup_def from_template_CODE_TEMPLATE Let_def
      split: sum.splits option.splits)

lemma render_startup:
  assumes "startup lib dotenv_file os_environ = Inr g"
  shows "render g c =
     Inr [HumanMessage
            (template_head @ code c @ template_mid @ format_instructions g @ template_tail)]"
  by (simp add: render_def startup_prompt [OF assms] format_messages_two_placeholders)

lemma startup_scenario:
  "startup (scenario_library chat p) no_environ key_environ = Inr (scenario_module chat p)"
  by (simp add: startup_set [where key = "''sk-test''"] getenv_def load_dotenv_def
      key_environ_def no_environ_def scenario_library_def scenario_module_def)

lemma startup_scenario_dotenv:
  "startup (scenario_library chat p) key_environ no_environ = Inr (scenario_module chat p)"
  by (simp add: startup_set [where key = "''sk-test''"] getenv_def load_dotenv_def
      key_environ_def no_environ_def scenario_library_def scenario_module_def)

lemma render_scenario:
  "render (scenario_module chat p) c = Inr (scenario_prompt (code c))"
  by (simp add: render_def scenario_module_def scenario_prompt_def
      format_messages_two_placeholders)

lemma scenario_fields:
  "get_chat_instance (scenario_module chat p) = chat"
  "parse (code_parser (scenario_module chat p)) = p"
  "format_instructions (scenario_module chat p) = scenario_instructions"
  by (simp_all add: get_chat_instance_def scenario_module_def)

lemma on_exception_globals: "globals (snd (on_exception e st)) = globals st"
  by (cases e) simp_all

lemma on_exception_calls: "calls (snd (on_exception e st)) = calls st"
  by (cases e) simp_all

lemma on_exception_body:
  "fst (on_exception e st) =
     Failure (case e of
        HTTPException sc d \<Rightarrow> \<lparr>status_code = sc, message = d\<rparr>
      | Exception s \<Rightarrow>
          \<lparr>status_code = HTTP_500_INTERNAL_SERVER_ERROR,
           message = ''Internal Server error: '' @ s\<rparr>)"
  by (cases e) simp_all

lemma on_exception_status:
  "response_status_code (response (snd (on_exception e st))) =
     Some (case e of HTTPException sc d \<Rightarrow> sc | Exception s \<Rightarrow> HTTP_500_INTERNAL_SERVER_ERROR)"
  by (cases e) simp_all

lemma refactor_code_globals: "globals (snd (refactor_code c chat_ai st)) = globals st"
  by (simp add: refactor_code_def try_block_def Let_def on_exception_globals
      split: sum.splits prod.splits if_splits)

lemma post_refactor_code_globals: "globals (snd (post_refactor_code g c)) = g"
  using refactor_code_globals [of c "get_chat_instance g" "request_state g"]
  by (auto simp add: post_refactor_code_def request_state_def split: prod.splits)

lemma serve_map: "serve g cs = map (\<lambda>c. fst (post_refactor_code g c)) cs"
proof (induction cs)
  case Nil
  show ?case by simp
next
  case (Cons c cs)
  with post_refactor_code_globals [of g c] show ?case
    by (auto split: prod.splits)
qed

lemma prompts_sent_append: "prompts_sent (xs @ ys) = prompts_sent xs @ prompts_sent ys"
  by (induction xs rule: prompts_sent.induct) simp_all

lemma prompts_sent_post:
  "prompts_sent (calls (snd (post_refactor_code g c))) =
     (case render g c of Inl e \<Rightarrow> [] | Inr data \<Rightarrow> [data])"
  by (simp add: handler_defs on_exception_calls split_beta split: sum.splits)

lemma try_block_response: "response (snd (try_block c chat_ai st)) = response st"
  by (simp add: try_block_def Let_def split: sum.splits)

lemma try_block_fst:
  "fst (try_block c chat_ai st) =
     (case render (globals st) c of
        Inl e \<Rightarrow> Inl e
      | Inr data \<Rightarrow>
          (case chat_ai data of
             Inl e \<Rightarrow> Inl e
           | Inr response_from_ai \<Rightarrow>
               if content response_from_ai = [] then
                 Inl (HTTPException HTTP_404_NOT_FOUND ''Empty response from chat API'')
               else
                 (case parse (code_parser (globals st)) (content response_from_ai) of
                    Inl e \<Rightarrow> Inl e
                  | Inr v \<Rightarrow>
                      if \<not> truthy v then
                        Inl (HTTPException HTTP_500_INTERNAL_SERVER_ERROR
                          ''Unexpected result from chat API'')
                      else Inr v)))"
  by (simp add: try_block_def Let_def split: sum.splits)

lemma post_refactor_code_fst:
  "fst (post_refactor_code g c) =
     (case fst (try_block c (get_chat_instance g) (request_state g)) of
        Inr v \<Rightarrow> respond HTTP_200_OK (Parsed v)
      | Inl (HTTPException sc d) \<Rightarrow> (sc, Failure \<lparr>status_code = sc, message = d\<rparr>)
      | Inl (Exception e) \<Rightarrow>
          (HTTP_500_INTERNAL_SERVER_ERROR,
           Failure \<lparr>status_code = HTTP_500_INTERNAL_SERVER_ERROR,
                    message = ''Internal Server error: '' @ e\<rparr>))"
proof (cases "try_block c (get_chat_instance g) (request_state g)")
  case (Pair r st')
  with try_block_response [of c "get_chat_instance g" "request_state g"]
  have "response st' = \<lparr>response_status_code = None\<rparr>"
    by (simp add: request_state_def)
  with Pair show ?thesis
    by (cases r; simp add: post_refactor_code_def refactor_code_def http_status_def
        split: exn.splits option.splits)
qed

lemma sublist_after_prefix: "sublist s (p @ s)"
  by (rule suffix_imp_sublist) (rule suffixI, rule refl)

section \<open>The success path\<close>

text \<open>
  Claim C1, as amended. For every code string: when the chat model answers the rendered
  prompt with a non-empty text and the output parser returns for it an object whose
  \<open>refactor_code\<close> and \<open>language\<close> are both strings, and which does not carry both a
  \<open>status_code\<close> and a \<open>message\<close>, the route answers with HTTP 200 and a body of
  exactly the two fields \<open>refactor_code\<close> and \<open>language\<close> with the parsed strings.
\<close>

theorem success_returns_two_fields:
  assumes "render g c = Inr data"
    and "get_chat_instance g data = Inr response_from_ai"
    and "content response_from_ai \<noteq> []"
    and "parse (code_parser g) (content response_from_ai) = Inr (JObject kvs)"
    and "map_of kvs ''refactor_code'' = Some (JString r)"
    and "map_of kvs ''language'' = Some (JString l)"
    and "map_of kvs ''status_code'' = None \<or> map_of kvs ''message'' = None"
  shows "fst (post_refactor_code g c) =
           (HTTP_200_OK,
            Parsed (JObject [(''refactor_code'', JString r), (''language'', JString l)]))"
proof -
  from assms(5) have "kvs \<noteq> []" by auto
  moreover from assms(7) have "validate_ErrorResponse (JObject kvs) = None"
    by (auto split: option.splits)
  moreover from assms(5,6) have "validate_CodeOutput (JObject kvs) = Some (r, l)"
    by simp
  ultimately show ?thesis
    using assms(1-4) by (simp add: handler_defs CodeOutput_json_def)
qed

theorem success_scenario:
  "fst (post_refactor_code (scenario_module (answering scenario_answer) strict_parse)
          \<lparr>code = scenario_code\<rparr>) =
     (200,
      Parsed (JObject [(''refactor_code'', JString ''def add_one(x):\<newline>    return x + 1''),
                       (''language'', JString ''python'')]))"
proof -
  let ?g = "scenario_module (answering scenario_answer) strict_parse"
  let ?kvs = "[(''refactor_code'', JString ''def add_one(x):\<newline>    return x + 1''),
               (''language'', JString ''python'')]"
  have h1: "render ?g \<lparr>code = scenario_code\<rparr> = Inr (scenario_prompt scenario_code)"
    by (simp add: render_scenario)
  have h2: "get_chat_instance ?g (scenario_prompt scenario_code) = Inr (AIMessage scenario_answer)"
    by (simp add: scenario_fields answering_def)
  have h3: "content (AIMessage scenario_answer) \<noteq> []"
    by (simp add: scenario_answer_def)
  have h4: "parse (code_parser ?g) (content (AIMessage scenario_answer)) = Inr (JObject ?kvs)"
    by (simp add: scenario_fields strict_parse_def scenario_dict_def)
  have h5: "map_of ?kvs ''refactor_code'' = Some (JString ''def add_one(x):\<newline>    return x + 1'')"
    by simp
  have h6: "map_of ?kvs ''language'' = Some (JString ''python'')"
    by simp
  have h7: "map_of ?kvs ''status_code'' = None \<or> map_of ?kvs ''message'' = None"
    by simp
  from success_returns_two_fields [OF h1 h2 h3 h4 h5 h6 h7] show ?thesis by simp
qed

text \<open>
  The claim as it was written asked only that the text parse into the two fields. The
  parser checks that the keys are there, not what they hold: an answer whose
  \<open>language\<close> is \<open>null\<close> is parsed and returned by the handler, fails the response
  model, and the client gets status 500 with the server's plain error text.
\<close>

theorem null_language_is_not_200:
  "parse (code_parser (scenario_module (answering null_language_answer) strict_parse))
     null_language_answer =
     Inr (JObject [(''refactor_code'', JString ''x = 1''), (''language'', JNull)]) \<and>
   fst (post_refactor_code (scenario_module (answering null_language_answer) strict_parse)
          \<lparr>code = scenario_code\<rparr>) =
     (500, PlainText ''Internal Server Error'')"
  by (simp add: handler_defs render_scenario scenario_fields answering_def strict_parse_def
      null_language_answer_def null_language_dict_def scenario_answer_def)

section \<open>The failure paths\<close>

text \<open>
  Claim C2 asks that a non-empty answer the parser does not accept be answered with
  HTTP 500 and one fixed message. Lines 81-82 are written for that, but they are reached
  only when \<open>parse\<close> returns a falsy value. When \<open>parse\<close> raises, as the library's
  parser does on a text without the \<open>language\<close> key, the second \<open>except\<close> clause
  answers: the status is 500, and the message is \<open>Internal Server error: \<close> followed by
  the description of the parser's exception, which is never the fixed message.
\<close>

theorem parser_exception_message:
  assumes "render g c = Inr data"
    and "get_chat_instance g data = Inr response_from_ai"
    and "content response_from_ai \<noteq> []"
    and "parse (code_parser g) (content response_from_ai) = Inl (Exception s)"
  shows "fst (post_refactor_code g c) =
           (HTTP_500_INTERNAL_SERVER_ERROR,
            Failure \<lparr>status_code = HTTP_500_INTERNAL_SERVER_ERROR,
                     message = ''Internal Server error: '' @ s\<rparr>) \<and>
         ''Internal Server error: '' @ s \<noteq> ''Unexpected result from chat API''"
  using assms by (simp add: handler_defs)

theorem parser_exception_scenario:
  "fst (post_refactor_code (scenario_module (answering missing_language_answer) strict_parse)
          \<lparr>code = scenario_code\<rparr>) =
     (500, Failure \<lparr>status_code = 500,
                    message = ''Internal Server error: '' @ missing_language_error\<rparr>) \<and>
   ''Internal Server error: '' @ missing_language_error \<noteq> ''Unexpected result from chat API''"
proof -
  let ?g = "scenario_module (answering missing_language_answer) strict_parse"
  have h1: "render ?g \<lparr>code = scenario_code\<rparr> = Inr (scenario_prompt scenario_code)"
    by (simp add: render_scenario)
  have h2: "get_chat_instance ?g (scenario_prompt scenario_code) =
              Inr (AIMessage missing_language_answer)"
    by (simp add: scenario_fields answering_def)
  have h3: "content (AIMessage missing_language_answer) \<noteq> []"
    by (simp add: missing_language_answer_def)
  have h4: "parse (code_parser ?g) (content (AIMessage missing_language_answer)) =
              Inl (Exception missing_language_error)"
    by (simp add: scenario_fields strict_parse_def missing_language_answer_def
        scenario_answer_def null_language_answer_def)
  from parser_exception_message [OF h1 h2 h3 h4] show ?thesis .
qed

text \<open>
  Claim C3. When the chat model answers with empty content, the route answers with HTTP
  404 and an error body whose status code is 404 and whose message is the fixed text
  \<open>Empty response from chat API\<close>; the only call the request made is the one to the
  chat model, so the output parser was not invoked.
\<close>

theorem empty_answer_is_404:
  assumes "render g c = Inr data"
    and "get_chat_instance g data = Inr response_from_ai"
    and "content response_from_ai = []"
  shows "fst (post_refactor_code g c) =
           (HTTP_404_NOT_FOUND,
            Failure \<lparr>status_code = HTTP_404_NOT_FOUND,
                     message = ''Empty response from chat API''\<rparr>) \<and>
         calls (snd (post_refactor_code g c)) = [OracleCall data]"
  using assms by (simp add: handler_defs)

theorem empty_answer_scenario:
  "fst (post_refactor_code (scenario_module (answering []) strict_parse)
          \<lparr>code = scenario_code\<rparr>) =
     (404, Failure \<lparr>status_code = 404, message = ''Empty response from chat API''\<rparr>) \<and>
   calls (snd (post_refactor_code (scenario_module (answering []) strict_parse)
          \<lparr>code = scenario_code\<rparr>)) = [OracleCall (scenario_prompt scenario_code)]"
proof -
  let ?g = "scenario_module (answering []) strict_parse"
  have h1: "render ?g \<lparr>code = scenario_code\<rparr> = Inr (scenario_prompt scenario_code)"
    by (simp add: render_scenario)
  have h2: "get_chat_instance ?g (scenario_prompt scenario_code) = Inr (AIMessage [])"
    by (simp add: scenario_fields answering_def)
  have h3: "content (AIMessage []) = []"
    by simp
  from empty_answer_is_404 [OF h1 h2 h3] show ?thesis by simp
qed

text \<open>
  Claim C4. When the call to the chat model raises an exception, the route answers
  with HTTP 500 and an error body with status code 500 whose message is
  \<open>Internal Server error: \<close> followed by the description of the exception, and so
  contains that description: for \<open>boom\<close> it contains \<open>boom\<close>. (\<open>Exception s\<close> is every
  exception a chat model raises, the errors of the provider and of the network; none
  of them is FastAPI's own \<open>HTTPException\<close>.)
\<close>

theorem oracle_exception_is_500:
  assumes "render g c = Inr data"
    and "get_chat_instance g data = Inl (Exception s)"
  shows "fst (post_refactor_code g c) =
           (HTTP_500_INTERNAL_SERVER_ERROR,
            Failure \<lparr>status_code = HTTP_500_INTERNAL_SERVER_ERROR,
                     message = ''Internal Server error: '' @ s\<rparr>) \<and>
         sublist s (''Internal Server error: '' @ s)"
  using assms by (simp add: handler_defs sublist_after_prefix del: append.simps)

theorem oracle_exception_scenario:
  "fst (post_refactor_code (scenario_module (raising (Exception ''boom'')) strict_parse)
          \<lparr>code = scenario_code\<rparr>) =
     (500, Failure \<lparr>status_code = 500, message = ''Internal Server error: boom''\<rparr>) \<and>
   sublist ''boom'' ''Internal Server error: boom''"
proof -
  let ?g = "scenario_module (raising (Exception ''boom'')) strict_parse"
  have h1: "render ?g \<lparr>code = scenario_code\<rparr> = Inr (scenario_prompt scenario_code)"
    by (simp add: render_scenario)
  have h2: "get_chat_instance ?g (scenario_prompt scenario_code) = Inl (Exception ''boom'')"
    by (simp add: scenario_fields raising_def)
  from oracle_exception_is_500 [OF h1 h2] show ?thesis by simp
qed



text \<open>
  Claim C10. When the exception the handler catches is not an \<open>HTTPException\<close>, the
  body has status code 500 and its message is exactly \<open>Internal Server error: \<close>
  followed by the description of the exception; the response's status code is set to
  500 as well.
\<close>

theorem caught_exception_message:
  assumes "fst (try_block c chat_ai st) = Inl (Exception s)"
  shows "fst (refactor_code c chat_ai st) =
           Failure \<lparr>status_code = HTTP_500_INTERNAL_SERVER_ERROR,
                    message = ''Internal Server error: '' @ s\<rparr> \<and>
         response_status_code (response (snd (refactor_code c chat_ai st))) =
           Some HTTP_500_INTERNAL_SERVER_ERROR"
  using assms by (cases "try_block c chat_ai st") (simp add: refactor_code_def)

theorem caught_exception_scenario:
  "fst (try_block \<lparr>code = scenario_code\<rparr> (raising (Exception ''connection reset''))
          (request_state (scenario_module (raising (Exception ''connection reset'')) strict_parse))) =
     Inl (Exception ''connection reset'') \<and>
   fst (refactor_code \<lparr>code = scenario_code\<rparr> (raising (Exception ''connection reset''))
          (request_state (scenario_module (raising (Exception ''connection reset'')) strict_parse))) =
     Failure \<lparr>status_code = 500, message = ''Internal Server error: connection reset''\<rparr>"
proof -
  let ?chat = "raising (Exception ''connection reset'')"
  let ?st = "request_state (scenario_module ?chat strict_parse)"
  have h: "fst (try_block \<lparr>code = scenario_code\<rparr> ?chat ?st) = Inl (Exception ''connection reset'')"
    by (simp add: try_block_def request_state_def Let_def render_scenario raising_def)
  from h caught_exception_message [OF h] show ?thesis by simp
qed

section \<open>The prompt\<close>

text \<open>
  Claim C6. The prompt a request sends to the chat model is determined by the code, the
  template and the format instructions alone: two invocations on the same code, whose
  module states have the same template and format instructions, send the same messages,
  whatever the chat model or the parser does in either of them. Nothing else enters the
  rendering.
\<close>

theorem rendering_is_deterministic:
  assumes "prompt g1 = prompt g2"
    and "format_instructions g1 = format_instructions g2"
  shows "render g1 c = render g2 c \<and>
         prompts_sent (calls (snd (post_refactor_code g1 c))) =
         prompts_sent (calls (snd (post_refactor_code g2 c)))"
  using assms by (simp add: prompts_sent_post) (simp add: render_def)

theorem rendering_scenario:
  "prompts_sent (calls (snd (post_refactor_code
      (scenario_module (answering scenario_answer) strict_parse) \<lparr>code = scenario_code\<rparr>))) =
   prompts_sent (calls (snd (post_refactor_code
      (scenario_module (raising (Exception ''boom'')) empty_parse) \<lparr>code = scenario_code\<rparr>)))"
proof -
  let ?g1 = "scenario_module (answering scenario_answer) strict_parse"
  let ?g2 = "scenario_module (raising (Exception ''boom'')) empty_parse"
  have h1: "prompt ?g1 = prompt ?g2"
    by (simp add: scenario_module_def)
  have h2: "format_instructions ?g1 = format_instructions ?g2"
    by (simp add: scenario_module_def)
  from rendering_is_deterministic [OF h1 h2, of "\<lparr>code = scenario_code\<rparr>"]
  show ?thesis by simp
qed

text \<open>
  Claim C7. \<open>CodeInput\<close> puts no condition on its string, so the empty string is a
  request like any other. On a module state that startup built it is rendered into the
  template with nothing between the backticks, that one prompt is sent to the chat
  model, and the request is answered exactly as a request with any other code to which
  the chat model reacts in the same way: no branch of the handler looks at the code.
\<close>

theorem empty_code_is_forwarded:
  assumes "startup lib dotenv_file os_environ = Inr g"
  shows "render g \<lparr>code = []\<rparr> =
           Inr [HumanMessage
                  (template_head @ template_mid @ format_instructions g @ template_tail)] \<and>
         prompts_sent (calls (snd (post_refactor_code g \<lparr>code = []\<rparr>))) =
           [[HumanMessage
               (template_head @ template_mid @ format_instructions g @ template_tail)]] \<and>
         (\<forall>c. get_chat_instance g
                 [HumanMessage
                    (template_head @ code c @ template_mid @ format_instructions g @
                     template_tail)] =
               get_chat_instance g
                 [HumanMessage
                    (template_head @ template_mid @ format_instructions g @ template_tail)] \<longrightarrow>
               fst (post_refactor_code g \<lparr>code = []\<rparr>) = fst (post_refactor_code g c))"
proof (intro conjI allI impI)
  show r: "render g \<lparr>code = []\<rparr> =
      Inr [HumanMessage
             (template_head @ template_mid @ format_instructions g @ template_tail)]"
    by (simp add: render_startup [OF assms])
  show "prompts_sent (calls (snd (post_refactor_code g \<lparr>code = []\<rparr>))) =
      [[HumanMessage (template_head @ template_mid @ format_instructions g @ template_tail)]]"
    by (simp add: prompts_sent_post r)
next
  fix c :: CodeInput
  assume "get_chat_instance g
            [HumanMessage
               (template_head @ code c @ template_mid @ format_instructions g @ template_tail)] =
          get_chat_instance g
            [HumanMessage
               (template_head @ template_mid @ format_instructions g @ template_tail)]"
  then show "fst (post_refactor_code g \<lparr>code = []\<rparr>) = fst (post_refactor_code g c)"
    by (simp add: post_refactor_code_fst try_block_fst request_state_def
        render_startup [OF assms])
qed

theorem empty_code_scenario:
  "render (scenario_module (answering scenario_answer) strict_parse) \<lparr>code = []\<rparr> =
     Inr [HumanMessage (template_head @ template_mid @ scenario_instructions @ template_tail)] \<and>
   prompts_sent (calls (snd (post_refactor_code
      (scenario_module (answering scenario_answer) strict_parse) \<lparr>code = []\<rparr>))) =
     [[HumanMessage (template_head @ template_mid @ scenario_instructions @ template_tail)]] \<and>
   fst (post_refactor_code (scenario_module (answering scenario_answer) strict_parse)
      \<lparr>code = []\<rparr>) =
   fst (post_refactor_code (scenario_module (answering scenario_answer) strict_parse)
      \<lparr>code = scenario_code\<rparr>)"
proof -
  let ?g = "scenario_module (answering scenario_answer) strict_parse"
  have h: "startup (scenario_library (answering scenario_answer) strict_parse)
             no_environ key_environ = Inr ?g"
    by (rule startup_scenario)
  have same: "get_chat_instance ?g
      [HumanMessage
         (template_head @ code \<lparr>code = scenario_code\<rparr> @ template_mid @
          format_instructions ?g @ template_tail)] =
    get_chat_instance ?g
      [HumanMessage (template_head @ template_mid @ format_instructions ?g @ template_tail)]"
    by (simp add: scenario_fields answering_def)
  from empty_code_is_forwarded [OF h] same show ?thesis
    by (simp add: scenario_fields)
qed

section \<open>Shared state\<close>

text \<open>
  Claim C8. The handler leaves the module state as it found it: the credential, the chat
  model, the application, the parser, the format instructions and the prompt after a
  request are those before it, on every path. So a server answers every request of a
  sequence on the module state that startup built.
\<close>

theorem handler_keeps_module_state:
  "globals (snd (refactor_code c chat_ai st)) = globals st \<and>
   globals (snd (post_refactor_code g c)) = g \<and>
   serve g cs = map (\<lambda>c. fst (post_refactor_code g c)) cs"
  by (simp add: refactor_code_globals post_refactor_code_globals serve_map)

section \<open>Startup\<close>

text \<open>
  Claim C9, as amended. When the credential is defined neither in the environment of
  the process nor in the \<open>.env\<close> file that \<open>load_dotenv\<close> reads, startup ends with the
  \<open>EnvironmentError\<close> before the chat model and the application are created, and the
  process serves no request. When one of the two defines it, startup goes on past the
  check: it never ends with the \<open>EnvironmentError\<close>, and if the chat model can be built
  it yields the module state with that credential and with the application.
\<close>

theorem credential_is_checked:
  "(getenv (load_dotenv dotenv_file os_environ) ''OPENAI_API_KEY'' = None \<longrightarrow>
      startup lib dotenv_file os_environ =
        Inl (EnvironmentError
          ''OpenAI API key is missing. Please set the OPENAI_API_KEY environment variable'') \<and>
      run_process lib dotenv_file os_environ requests =
        Inl (EnvironmentError
          ''OpenAI API key is missing. Please set the OPENAI_API_KEY environment variable'')) \<and>
   (\<forall>key. getenv (load_dotenv dotenv_file os_environ) ''OPENAI_API_KEY'' = Some key \<longrightarrow>
      (\<forall>m. startup lib dotenv_file os_environ \<noteq> Inl (EnvironmentError m)) \<and>
      (\<forall>cm. ChatOpenAI_init lib 0 CHAT_MODEL = Inr cm \<longrightarrow>
         (\<exists>g. startup lib dotenv_file os_environ = Inr g \<and> OPENAI_API_KEY g = key \<and>
              chat_model g = cm \<and> app g = [(''POST'', ''/refactor-code/'')] \<and>
              run_process lib dotenv_file os_environ requests = Inr (serve g requests))))"
proof (intro conjI impI allI)
  assume "getenv (load_dotenv dotenv_file os_environ) ''OPENAI_API_KEY'' = None"
  then show "startup lib dotenv_file os_environ =
        Inl (EnvironmentError
          ''OpenAI API key is missing. Please set the OPENAI_API_KEY environment variable'')"
    by (rule startup_unset)
  then show "run_process lib dotenv_file os_environ requests =
        Inl (EnvironmentError
          ''OpenAI API key is missing. Please set the OPENAI_API_KEY environment variable'')"
    by (simp add: run_process_def)
next
  fix key m
  assume "getenv (load_dotenv dotenv_file os_environ) ''OPENAI_API_KEY'' = Some key"
  then show "startup lib dotenv_file os_environ \<noteq> Inl (EnvironmentError m)"
    by (simp add: startup_set split: sum.splits)
next
  fix key cm
  assume "getenv (load_dotenv dotenv_file os_environ) ''OPENAI_API_KEY'' = Some key"
    and "ChatOpenAI_init lib 0 CHAT_MODEL = Inr cm"
  then show "\<exists>g. startup lib dotenv_file os_environ = Inr g \<and> OPENAI_API_KEY g = key \<and>
              chat_model g = cm \<and> app g = [(''POST'', ''/refactor-code/'')] \<and>
              run_process lib dotenv_file os_environ requests = Inr (serve g requests)"
    by (simp add: startup_set run_process_def)
qed

theorem credential_scenarios:
  "startup (scenario_library (answering scenario_answer) strict_parse) no_environ no_environ =
     Inl (EnvironmentError
       ''OpenAI API key is missing. Please set the OPENAI_API_KEY environment variable'') \<and>
   run_process (scenario_library (answering scenario_answer) strict_parse) no_environ no_environ
     [\<lparr>code = scenario_code\<rparr>] =
     Inl (EnvironmentError
       ''OpenAI API key is missing. Please set the OPENAI_API_KEY environment variable'') \<and>
   (\<exists>g. startup (scenario_library (answering scenario_answer) strict_parse)
          no_environ key_environ = Inr g \<and>
        OPENAI_API_KEY g = ''sk-test'' \<and> chat_model g = answering scenario_answer \<and>
        app g = [(''POST'', ''/refactor-code/'')] \<and>
        run_process (scenario_library (answering scenario_answer) strict_parse)
          no_environ key_environ [\<lparr>code = scenario_code\<rparr>] =
          Inr (serve g [\<lparr>code = scenario_code\<rparr>]))"
proof -
  let ?lib = "scenario_library (answering scenario_answer) strict_parse"
  have unset: "getenv (load_dotenv no_environ no_environ) ''OPENAI_API_KEY'' = None"
    by (simp add: getenv_def load_dotenv_def no_environ_def)
  have set: "getenv (load_dotenv no_environ key_environ) ''OPENAI_API_KEY'' = Some ''sk-test''"
    by (simp add: getenv_def load_dotenv_def no_environ_def key_environ_def)
  have init: "ChatOpenAI_init ?lib 0 CHAT_MODEL = Inr (answering scenario_answer)"
    by (simp add: scenario_library_def)
  from credential_is_checked [of no_environ no_environ ?lib "[\<lparr>code = scenario_code\<rparr>]"] unset
  have first: "startup ?lib no_environ no_environ =
     Inl (EnvironmentError
       ''OpenAI API key is missing. Please set the OPENAI_API_KEY environment variable'') \<and>
     run_process ?lib no_environ no_environ [\<lparr>code = scenario_code\<rparr>] =
     Inl (EnvironmentError
       ''OpenAI API key is missing. Please set the OPENAI_API_KEY environment variable'')"
    by blast
  from credential_is_checked [of no_environ key_environ ?lib "[\<lparr>code = scenario_code\<rparr>]"] set init
  have second: "\<exists>g. startup ?lib no_environ key_environ = Inr g \<and>
        OPENAI_API_KEY g = ''sk-test'' \<and> chat_model g = answering scenario_answer \<and>
        app g = [(''POST'', ''/refactor-code/'')] \<and>
        run_process ?lib no_environ key_environ [\<lparr>code = scenario_code\<rparr>] =
          Inr (serve g [\<lparr>code = scenario_code\<rparr>])"
    by blast
  from first second show ?thesis by simp
qed

text \<open>
  The claim as it was written looked at the environment of the process alone. With the
  variable unset there and defined in the \<open>.env\<close> file, startup succeeds and the
  process serves.
\<close>

theorem credential_from_dotenv_file:
  "getenv no_environ ''OPENAI_API_KEY'' = None \<and>
   startup (scenario_library (answering scenario_answer) strict_parse) key_environ no_environ =
     Inr (scenario_module (answering scenario_answer) strict_parse) \<and>
   run_process (scenario_library (answering scenario_answer) strict_parse) key_environ no_environ
     [\<lparr>code = scenario_code\<rparr>] = Inr [(200, Parsed scenario_dict)]"
proof -
  let ?lib = "scenario_library (answering scenario_answer) strict_parse"
  let ?g = "scenario_module (answering scenario_answer) strict_parse"
  have a: "getenv no_environ ''OPENAI_API_KEY'' = None"
    by (simp add: getenv_def no_environ_def)
  have b: "startup ?lib key_environ no_environ = Inr ?g"
    by (rule startup_scenario_dotenv)
  have c: "fst (post_refactor_code ?g \<lparr>code = scenario_code\<rparr>) = (200, Parsed scenario_dict)"
    by (simp add: handler_defs render_scenario scenario_fields answering_def strict_parse_def
        scenario_answer_def scenario_dict_def CodeOutput_json_def)
  have d: "run_process ?lib key_environ no_environ [\<lparr>code = scenario_code\<rparr>] =
      Inr [(200, Parsed scenario_dict)]"
    by (simp add: run_process_def b serve_map c)
  from a b d show ?thesis by simp
qed

end
